theory Spec2Isabelle
  imports Complex_Main
begin

section \<open>Data model\<close>

text \<open>
  The backend keeps three collections in a document store: products (models/Product.js),
  orders (models/Order.js) and reviews (models/Review.js). The order routes, headed
  routes/orders.js, stand in the file routes/admin.js after the admin routes. Document
  identifiers are
  modelled as natural numbers and dates as natural numbers (a clock value handed to each
  handler in place of \<open>new Date()\<close>). A JavaScript \<open>Number\<close> holding a stock count or
  a quantity is modelled as an integer (negative values included, since the handlers
  receive them unchecked). A \<open>Number\<close> holding money or a rating is modelled as an
  exact rational. The handlers compute with binary floating-point numbers; the exact
  arithmetic of the model gives the same values only where no intermediate result is
  rounded, as with the whole-number prices and ratings of the example shop. No
  property below says how a floating-point sum or product of prices rounds.

  The records keep the fields that the order, cart and review handlers read or write,
  under the names of the schemas; a name that two schemas share carries a prefix
  (\<open>item_price\<close> for the \<open>price\<close> of an order line, \<open>pay_method\<close> for
  \<open>payment.method\<close>). Fields that are only passed through (order number, notes, gift
  flags, descriptive product fields, review title and comment) are left out. Documents
  already in the store are taken to satisfy their schema, so that saving a loaded
  document succeeds.
\<close>

type_synonym oid = nat
type_synonym date = nat

text \<open>\<open>Math.round\<close>: the nearest integer, a tie going up.\<close>

definition Math_round :: "rat \<Rightarrow> int" where
  "Math_round x = \<lfloor>x + 1 / 2\<rfloor>"

text \<open>JavaScript truthiness of a possibly missing string: present and not empty.\<close>

fun truthy :: "string option \<Rightarrow> bool" where
  "truthy None = False"
| "truthy (Some str) = (str \<noteq> [])"

subsection \<open>Products\<close>

record size_entry =
  volume :: string
  price :: rat
  stock :: int

record product =
  name :: string
  images :: "string list"
  sizes :: "size_entry list"
  isActive :: bool
  ratings_average :: rat
  ratings_count :: nat

subsection \<open>Orders\<close>

datatype status = Pending | Confirmed | Processing | Shipped | Delivered | Cancelled | Refunded

datatype payment_status = PayPending | Paid | PayFailed | PayRefunded

record order_item =
  item_product :: oid
  item_name :: string
  item_image :: string
  item_size :: string
  item_price :: rat
  item_quantity :: int

record address =
  fullName :: string
  street :: string
  city :: string
  state :: string
  country :: string
  zipCode :: string
  phone :: string

record pricing =
  subtotal :: rat
  shipping :: rat
  tax :: rat
  discount :: rat
  total :: rat

record payment =
  pay_method :: string
  pay_status :: payment_status
  stripePaymentId :: "string option"
  paidAt :: "date option"

record history_entry =
  h_status :: status
  h_message :: string
  h_timestamp :: date

record tracking_info =
  carrier :: string
  trackingNumber :: string

record order =
  user :: oid
  items :: "order_item list"
  shippingAddress :: address
  order_pricing :: pricing
  coupon :: "(string \<times> rat) option"
  order_payment :: payment
  order_status :: status
  statusHistory :: "history_entry list"
  tracking :: "tracking_info option"

subsection \<open>Reviews\<close>

record review =
  review_user :: oid
  review_product :: oid
  rating :: rat
  isApproved :: bool
  helpfulVotes :: int
  votedBy :: "oid list"

subsection \<open>The store\<close>

text \<open>
  Orders are never deleted, so the order collection is a list and an order's identifier
  is its position in it. Products are looked up by identifier only; reviews are
  aggregated over, so they are a list.
\<close>

record store =
  products :: "oid \<rightharpoonup> product"
  orders :: "order list"
  reviews :: "review list"

text \<open>
  The failures that the handlers answer with, by kind:
  \<^item> \<open>ValidationFailed\<close>: the 400 answers to a rejected request body, that is the
    express-validator errors, a schema violation thrown by \<open>Order.create\<close>,
    "Invalid status" and "Not a COD order";
  \<^item> \<open>NotFound\<close>: "Product ... not found", "Order not found", "Review not found";
  \<^item> \<open>InvalidSize\<close>: "Size ... not available";
  \<^item> \<open>InsufficientStock\<close>: "Insufficient stock for ...";
  \<^item> \<open>Forbidden\<close>: the 403 answers "Not authorized" and "Access denied. Admins only.";
  \<^item> \<open>Conflict\<close>: "Order cannot be cancelled (status: ...)" and "Invalid coupon code".
\<close>

datatype error =
    ValidationFailed
  | NotFound
  | InvalidSize
  | InsufficientStock
  | Forbidden
  | Conflict

definition findById :: "'a list \<Rightarrow> oid \<Rightarrow> 'a option" where
  "findById xs i = (if i < length xs then Some (xs ! i) else None)"

section \<open>Stock counters (the \<open>$inc\<close> updates of routes/orders.js)\<close>

text \<open>
  \<open>Product.updateOne({_id, 'sizes.volume': v}, {$inc: {'sizes.$.stock': d}})\<close>: the
  positional operator addresses the first array element that matches the query, so the
  first size entry labelled \<open>v\<close> gets its stock changed by \<open>d\<close>; when the product or
  the label does not exist the query matches nothing and nothing is written.
\<close>

fun inc_first :: "string \<Rightarrow> int \<Rightarrow> size_entry list \<Rightarrow> size_entry list" where
  "inc_first v d [] = []"
| "inc_first v d (sz # rest) =
     (if volume sz = v then sz\<lparr>stock := stock sz + d\<rparr> # rest
      else sz # inc_first v d rest)"

definition updateOne_inc_stock ::
  "(oid \<rightharpoonup> product) \<Rightarrow> oid \<Rightarrow> string \<Rightarrow> int \<Rightarrow> (oid \<rightharpoonup> product)" where
  "updateOne_inc_stock ps pid v d =
     (case ps pid of
        None \<Rightarrow> ps
      | Some p \<Rightarrow> ps(pid \<mapsto> p\<lparr>sizes := inc_first v d (sizes p)\<rparr>))"

text \<open>The two loops of the order routes: "Reduce stock" and "Restore stock".\<close>

definition reduceStock :: "order_item list \<Rightarrow> (oid \<rightharpoonup> product) \<Rightarrow> (oid \<rightharpoonup> product)" where
  "reduceStock its ps =
     fold (\<lambda>item acc. updateOne_inc_stock acc (item_product item) (item_size item)
                         (- item_quantity item)) its ps"

definition restoreStock :: "order_item list \<Rightarrow> (oid \<rightharpoonup> product) \<Rightarrow> (oid \<rightharpoonup> product)" where
  "restoreStock its ps =
     fold (\<lambda>item acc. updateOne_inc_stock acc (item_product item) (item_size item)
                         (item_quantity item)) its ps"

text \<open>
  Reading aids for the statements below: the size entry that \<open>sizes.find\<close> and the
  positional update both address, its stock and its price.
\<close>

definition size_of :: "(oid \<rightharpoonup> product) \<Rightarrow> oid \<Rightarrow> string \<Rightarrow> size_entry option" where
  "size_of ps pid v =
     (case ps pid of
        None \<Rightarrow> None
      | Some p \<Rightarrow> List.find (\<lambda>sz. volume sz = v) (sizes p))"

definition stock_of :: "(oid \<rightharpoonup> product) \<Rightarrow> oid \<Rightarrow> string \<Rightarrow> int option" where
  "stock_of ps pid v = map_option stock (size_of ps pid v)"

text \<open>The total quantity that the line items of an order hold of one product size.\<close>

definition ordered_quantity :: "order_item list \<Rightarrow> oid \<Rightarrow> string \<Rightarrow> int" where
  "ordered_quantity its pid v =
     sum_list (map item_quantity
       (filter (\<lambda>item. item_product item = pid \<and> item_size item = v) its))"

section \<open>Placing an order (routes/orders.js, \<open>POST /api/orders\<close>)\<close>

record req_item =
  req_product :: oid
  req_size :: string
  req_quantity :: int

record order_request =
  req_items :: "req_item list"
  req_shippingAddress :: address
  req_payment_method :: "string option"
  req_coupon_code :: "string option"

text \<open>The express-validator chain in front of the handler.\<close>

definition request_validation_ok :: "order_request \<Rightarrow> bool" where
  "request_validation_ok req =
     (req_items req \<noteq> []
      \<and> fullName (req_shippingAddress req) \<noteq> []
      \<and> street (req_shippingAddress req) \<noteq> []
      \<and> city (req_shippingAddress req) \<noteq> []
      \<and> country (req_shippingAddress req) \<noteq> [])"

text \<open>
  The schema validation that \<open>Order.create\<close> runs (models/Order.js): every required
  address field is present, every quantity is at least 1 and the payment method is one
  of the enumerated ones. A violation is thrown and answered by the handler's
  \<open>catch\<close>.
\<close>

definition order_schema_ok :: "order \<Rightarrow> bool" where
  "order_schema_ok ord =
     (list_all (\<lambda>item. 1 \<le> item_quantity item) (items ord)
      \<and> fullName (shippingAddress ord) \<noteq> []
      \<and> street (shippingAddress ord) \<noteq> []
      \<and> city (shippingAddress ord) \<noteq> []
      \<and> state (shippingAddress ord) \<noteq> []
      \<and> country (shippingAddress ord) \<noteq> []
      \<and> zipCode (shippingAddress ord) \<noteq> []
      \<and> phone (shippingAddress ord) \<noteq> []
      \<and> pay_method (order_payment ord) \<in> set [''stripe'', ''cod'', ''bank_transfer''])"

text \<open>
  The first loop of the handler, "Verify products and calculate pricing", with its two
  accumulators \<open>subtotal\<close> and \<open>orderItems\<close>. It only reads the catalogue.
\<close>

fun verify_items ::
  "(oid \<rightharpoonup> product) \<Rightarrow> req_item list \<Rightarrow> rat \<Rightarrow> order_item list
     \<Rightarrow> error + (order_item list \<times> rat)" where
  "verify_items ps [] sub orderItems = Inr (orderItems, sub)"
| "verify_items ps (item # rest) sub orderItems =
     (case ps (req_product item) of
        None \<Rightarrow> Inl NotFound
      | Some p \<Rightarrow>
          if \<not> isActive p then Inl NotFound
          else (case List.find (\<lambda>sz. volume sz = req_size item) (sizes p) of
                  None \<Rightarrow> Inl InvalidSize
                | Some sizeObj \<Rightarrow>
                    if stock sizeObj < req_quantity item then Inl InsufficientStock
                    else verify_items ps rest
                           (sub + price sizeObj * of_int (req_quantity item))
                           (orderItems @
                              [\<lparr>item_product = req_product item,
                                item_name = name p,
                                item_image = (case images p of [] \<Rightarrow> [] | url # _ \<Rightarrow> url),
                                item_size = req_size item,
                                item_price = price sizeObj,
                                item_quantity = req_quantity item\<rparr>])))"

text \<open>
  "Calculate totals", in exact arithmetic (the handler's \<open>subtotal * 0.05 * 100\<close> and
  its sums are floating-point operations).
\<close>

definition calculate_totals :: "rat \<Rightarrow> string option \<Rightarrow> pricing" where
  "calculate_totals sub code =
     (let shipping = (if sub \<ge> 100 then 0 else 999 / 100);
          tax = of_int (Math_round (sub * (5 / 100) * 100)) / 100;
          discount = (if truthy code
                      then of_int (Math_round (sub * (10 / 100) * 100)) / 100
                      else 0);
          total = of_int (Math_round ((sub + shipping + tax - discount) * 100)) / 100
      in \<lparr>subtotal = sub, shipping = shipping, tax = tax, discount = discount,
          total = total\<rparr>)"

definition new_order :: "oid \<Rightarrow> date \<Rightarrow> order_request \<Rightarrow> order_item list \<Rightarrow> rat \<Rightarrow> order" where
  "new_order uid now req orderItems sub =
     (let pr = calculate_totals sub (req_coupon_code req) in
      \<lparr>user = uid,
       items = orderItems,
       shippingAddress = req_shippingAddress req,
       order_pricing = pr,
       coupon = (if truthy (req_coupon_code req)
                 then Some (the (req_coupon_code req), discount pr) else None),
       order_payment =
         \<lparr>pay_method = (if truthy (req_payment_method req)
                    then the (req_payment_method req) else ''stripe''),
          pay_status = PayPending, stripePaymentId = None, paidAt = None\<rparr>,
       order_status = Pending,
       statusHistory =
         [\<lparr>h_status = Pending, h_message = ''Order placed successfully'',
           h_timestamp = now\<rparr>],
       tracking = None\<rparr>)"

text \<open>
  The handler. It answers with the store it leaves behind and either the error or the
  created order. The order is written first and the stock is reduced afterwards.
\<close>

definition placeOrder ::
  "store \<Rightarrow> oid \<Rightarrow> date \<Rightarrow> order_request \<Rightarrow> store \<times> (error + order)" where
  "placeOrder s uid now req =
     (if \<not> request_validation_ok req then (s, Inl ValidationFailed)
      else (case verify_items (products s) (req_items req) 0 [] of
              Inl e \<Rightarrow> (s, Inl e)
            | Inr (orderItems, sub) \<Rightarrow>
                let ord = new_order uid now req orderItems sub in
                if \<not> order_schema_ok ord then (s, Inl ValidationFailed)
                else (s\<lparr>orders := orders s @ [ord],
                        products := reduceStock orderItems (products s)\<rparr>,
                      Inr ord)))"

section \<open>Coupons (routes/cart.js, \<open>POST /api/cart/coupon\<close>)\<close>

datatype coupon_type = Percentage | FreeShipping | Fixed

definition toUpperChar :: "char \<Rightarrow> char" where
  "toUpperChar c =
     (let n = (of_char c :: nat) in
      if 97 \<le> n \<and> n \<le> 122 then char_of (n - 32) else c)"

definition toUpperCase :: "string \<Rightarrow> string" where
  "toUpperCase str = map toUpperChar str"

definition coupons :: "string \<Rightarrow> (rat \<times> coupon_type) option" where
  "coupons code =
     (if code = ''WELCOME10'' then Some (10, Percentage)
      else if code = ''ATTAR20'' then Some (20, Percentage)
      else if code = ''FREESHIP'' then Some (0, FreeShipping)
      else if code = ''ROYAL50'' then Some (50, Fixed)
      else None)"

definition checkCoupon :: "string option \<Rightarrow> error + (string \<times> rat \<times> coupon_type)" where
  "checkCoupon code =
     (case code of
        None \<Rightarrow> Inl Conflict
      | Some c \<Rightarrow>
          (case coupons (toUpperCase c) of
             None \<Rightarrow> Inl Conflict
           | Some (d, ty) \<Rightarrow> Inr (toUpperCase c, d, ty)))"

section \<open>Cancelling an order (routes/orders.js, \<open>PUT /api/orders/:id/cancel\<close>)\<close>

definition cancellableStatuses :: "status list" where
  "cancellableStatuses = [Pending, Confirmed]"

definition cancelOrder ::
  "store \<Rightarrow> oid \<Rightarrow> oid \<Rightarrow> string option \<Rightarrow> date \<Rightarrow> store \<times> (error + order)" where
  "cancelOrder s uid orderId reason now =
     (case findById (orders s) orderId of
        None \<Rightarrow> (s, Inl NotFound)
      | Some ord \<Rightarrow>
          if user ord \<noteq> uid then (s, Inl Forbidden)
          else if order_status ord \<notin> set cancellableStatuses then (s, Inl Conflict)
          else
            let ord' = ord\<lparr>order_status := Cancelled,
                           statusHistory := statusHistory ord @
                             [\<lparr>h_status = Cancelled,
                               h_message = (if truthy reason then the reason
                                            else ''Cancelled by customer''),
                               h_timestamp = now\<rparr>]\<rparr>
            in (s\<lparr>orders := (orders s)[orderId := ord'],
                   products := restoreStock (items ord) (products s)\<rparr>,
                Inr ord'))"

section \<open>Administrative status update (\<open>PUT /api/orders/:id/status\<close>)\<close>

record requester =
  user_id :: oid
  role :: string

text \<open>middleware/auth.js, \<open>adminOnly\<close>.\<close>

definition adminOnly :: "requester \<Rightarrow> bool" where
  "adminOnly u = (role u = ''admin'')"

text \<open>\<open>validStatuses.includes(status)\<close> on the status string of the request body.\<close>

definition validStatuses :: "(string \<times> status) list" where
  "validStatuses =
     [(''pending'', Pending), (''confirmed'', Confirmed), (''processing'', Processing),
      (''shipped'', Shipped), (''delivered'', Delivered), (''cancelled'', Cancelled),
      (''refunded'', Refunded)]"

definition updateOrderStatus ::
  "store \<Rightarrow> requester \<Rightarrow> oid \<Rightarrow> string \<Rightarrow> string option \<Rightarrow> tracking_info option
     \<Rightarrow> date
     \<Rightarrow> store \<times> (error + order)" where
  "updateOrderStatus s u orderId statusStr message trk now =
     (if \<not> adminOnly u then (s, Inl Forbidden)
      else (case map_of validStatuses statusStr of
              None \<Rightarrow> (s, Inl ValidationFailed)
            | Some st \<Rightarrow>
                (case findById (orders s) orderId of
                   None \<Rightarrow> (s, Inl NotFound)
                 | Some ord \<Rightarrow>
                     let ord1 = ord\<lparr>order_status := st,
                                    statusHistory := statusHistory ord @
                                      [\<lparr>h_status = st,
                                        h_message = (if truthy message then the message
                                                     else ''Status updated to '' @ statusStr),
                                        h_timestamp = now\<rparr>]\<rparr>;
                         ord2 = (case trk of
                                   None \<Rightarrow> ord1
                                 | Some tr \<Rightarrow> ord1\<lparr>tracking := Some tr\<rparr>);
                         ord3 = (if st = Delivered
                                 then ord2\<lparr>order_payment :=
                                             (order_payment ord2)\<lparr>paidAt := Some now\<rparr>\<rparr>
                                 else ord2)
                     in (s\<lparr>orders := (orders s)[orderId := ord3]\<rparr>, Inr ord3))))"

section \<open>Payment confirmations (routes/payments.js)\<close>

text \<open>
  The two other places that set an order's status: the gateway's
  \<open>payment_intent.succeeded\<close> webhook (once the gateway is configured and the
  event's signature has been verified) and the cash-on-delivery confirmation.
\<close>

fun findOne_index :: "('a \<Rightarrow> bool) \<Rightarrow> 'a list \<Rightarrow> nat \<Rightarrow> nat option" where
  "findOne_index P [] i = None"
| "findOne_index P (x # xs) i = (if P x then Some i else findOne_index P xs (Suc i))"

definition paymentSucceeded :: "store \<Rightarrow> string \<Rightarrow> date \<Rightarrow> store" where
  "paymentSucceeded s intentId now =
     (case findOne_index (\<lambda>ord. stripePaymentId (order_payment ord) = Some intentId)
             (orders s) 0 of
        None \<Rightarrow> s
      | Some i \<Rightarrow>
          let ord = orders s ! i;
              ord' = ord\<lparr>order_payment :=
                            (order_payment ord)\<lparr>pay_status := Paid, paidAt := Some now\<rparr>,
                          order_status := Confirmed,
                          statusHistory := statusHistory ord @
                            [\<lparr>h_status = Confirmed,
                              h_message = ''Payment received successfully'',
                              h_timestamp = now\<rparr>]\<rparr>
          in s\<lparr>orders := (orders s)[i := ord']\<rparr>)"

definition confirmCod :: "store \<Rightarrow> oid \<Rightarrow> date \<Rightarrow> store \<times> (error + order)" where
  "confirmCod s orderId now =
     (case findById (orders s) orderId of
        None \<Rightarrow> (s, Inl NotFound)
      | Some ord \<Rightarrow>
          if pay_method (order_payment ord) \<noteq> ''cod'' then (s, Inl ValidationFailed)
          else
            let ord' = ord\<lparr>order_status := Confirmed,
                           statusHistory := statusHistory ord @
                             [\<lparr>h_status = Confirmed,
                               h_message = ''Cash on delivery order confirmed'',
                               h_timestamp = now\<rparr>]\<rparr>
            in (s\<lparr>orders := (orders s)[orderId := ord']\<rparr>, Inr ord'))"

section \<open>Validating a cart (routes/cart.js, \<open>POST /api/cart/validate\<close>)\<close>






section \<open>Review aggregation (models/Review.js, \<open>updateProductRating\<close>)\<close>

text \<open>
  The aggregation pipeline: \<open>$match\<close> keeps the approved reviews of the product,
  \<open>$group\<close> yields one document with their average rating and their number, or no
  document at all when nothing matched. \<open>findByIdAndUpdate\<close> writes the two rating
  fields of the product when the product exists.
\<close>

definition aggregate_stats :: "review list \<Rightarrow> oid \<Rightarrow> (rat \<times> nat) list" where
  "aggregate_stats rs productId =
     (let matched = filter (\<lambda>r. review_product r = productId \<and> isApproved r) rs in
      if matched = [] then []
      else [(sum_list (map rating matched) / of_nat (length matched), length matched)])"

definition updateProductRating :: "store \<Rightarrow> oid \<Rightarrow> store" where
  "updateProductRating s productId =
     (let stats = aggregate_stats (reviews s) productId;
          average = (case stats of
                       [] \<Rightarrow> 0
                     | (avgRating, _) # _ \<Rightarrow> of_int (Math_round (avgRating * 10)) / 10);
          cnt = (case stats of [] \<Rightarrow> 0 | (_, n) # _ \<Rightarrow> n)
      in (case products s productId of
            None \<Rightarrow> s
          | Some p \<Rightarrow>
              s\<lparr>products := (products s)(productId \<mapsto>
                    p\<lparr>ratings_average := average, ratings_count := cnt\<rparr>)\<rparr>))"

section \<open>Rounding to decimals\<close>

text \<open>
  What "rounded to \<open>d\<close> decimals" asks of a result \<open>r\<close> for a value \<open>x\<close>: \<open>r\<close> is a
  whole number of units of \<open>10\<^sup>-\<^sup>d\<close> and lies within half a unit of \<open>x\<close>.
\<close>

definition rounded_to :: "nat \<Rightarrow> rat \<Rightarrow> rat \<Rightarrow> bool" where
  "rounded_to d x r =
     (of_int \<lfloor>r * 10 ^ d\<rfloor> = r * 10 ^ d \<and> \<bar>r - x\<bar> * (2 * 10 ^ d) \<le> 1)"

section \<open>Reading aids for the order properties\<close>

text \<open>
  A requested line exceeds the stock when the size entry it addresses holds fewer units
  than requested; it resolves when its product exists and is active and the product has
  a size entry with the requested label.
\<close>

definition exceeds_stock :: "(oid \<rightharpoonup> product) \<Rightarrow> oid \<Rightarrow> string \<Rightarrow> int \<Rightarrow> bool" where
  "exceeds_stock ps pid v q =
     (case stock_of ps pid v of None \<Rightarrow> False | Some n \<Rightarrow> n < q)"

definition resolves :: "(oid \<rightharpoonup> product) \<Rightarrow> oid \<Rightarrow> string \<Rightarrow> bool" where
  "resolves ps pid v =
     (case ps pid of
        None \<Rightarrow> False
      | Some p \<Rightarrow> isActive p \<and> size_of ps pid v \<noteq> None)"

text \<open>
  The ratings that the aggregation ranges over, and the mean of a list of numbers.
\<close>

definition approved_ratings :: "store \<Rightarrow> oid \<Rightarrow> rat list" where
  "approved_ratings s pid =
     map rating (filter (\<lambda>r. review_product r = pid \<and> isApproved r) (reviews s))"

definition mean :: "rat list \<Rightarrow> rat" where
  "mean xs = sum_list xs / of_nat (length xs)"


section \<open>An example shop\<close>

definition rose :: product where
  "rose = \<lparr>name = ''Royal Hindi Oud'', images = [''oud.jpg''],
           sizes = [\<lparr>volume = ''3ml'', price = 30, stock = 5\<rparr>,
                    \<lparr>volume = ''6ml'', price = 20, stock = 20\<rparr>],
           isActive = True, ratings_average = 0, ratings_count = 0\<rparr>"

definition musk :: product where
  "musk = \<lparr>name = ''Musk Al Shimal'', images = [],
           sizes = [\<lparr>volume = ''3ml'', price = 110, stock = 15\<rparr>],
           isActive = False, ratings_average = 0, ratings_count = 0\<rparr>"

definition home :: address where
  "home = \<lparr>fullName = ''A'', street = ''B'', city = ''C'', state = ''D'', country = ''E'',
           zipCode = ''F'', phone = ''G''\<rparr>"

definition shipped_order :: order where
  "shipped_order =
     \<lparr>user = 5,
      items = [\<lparr>item_product = 11, item_name = ''Royal Hindi Oud'', item_image = ''oud.jpg'',
                item_size = ''3ml'', item_price = 30, item_quantity = 2\<rparr>],
      shippingAddress = home,
      order_pricing = \<lparr>subtotal = 60, shipping = 999 / 100, tax = 3, discount = 0,
                       total = 7299 / 100\<rparr>,
      coupon = None,
      order_payment = \<lparr>pay_method = ''stripe'', pay_status = Paid,
                       stripePaymentId = Some ''pi_1'', paidAt = Some 3\<rparr>,
      order_status = Shipped,
      statusHistory = [\<lparr>h_status = Pending, h_message = ''Order placed successfully'',
                        h_timestamp = 1\<rparr>,
                       \<lparr>h_status = Shipped, h_message = ''Status updated to shipped'',
                        h_timestamp = 4\<rparr>],
      tracking = None\<rparr>"

definition pending_order :: order where
  "pending_order =
     shipped_order\<lparr>order_status := Pending,
                   order_payment := \<lparr>pay_method = ''cod'', pay_status = PayPending,
                                     stripePaymentId = None, paidAt = None\<rparr>,
                   statusHistory := [\<lparr>h_status = Pending,
                                      h_message = ''Order placed successfully'',
                                      h_timestamp = 1\<rparr>]\<rparr>"

definition shop :: store where
  "shop = \<lparr>products = [11 \<mapsto> rose, 12 \<mapsto> musk],
           orders = [shipped_order, pending_order],
           reviews = [\<lparr>review_user = 5, review_product = 11, rating = 4, isApproved = True,
                       helpfulVotes = 0, votedBy = []\<rparr>,
                      \<lparr>review_user = 6, review_product = 11, rating = 5, isApproved = True,
                       helpfulVotes = 0, votedBy = []\<rparr>,
                      \<lparr>review_user = 7, review_product = 11, rating = 5, isApproved = True,
                       helpfulVotes = 0, votedBy = []\<rparr>,
                      \<lparr>review_user = 8, review_product = 11, rating = 1, isApproved = False,
                       helpfulVotes = 0, votedBy = []\<rparr>]\<rparr>"

definition cart_request :: order_request where
  "cart_request =
     \<lparr>req_items = [\<lparr>req_product = 11, req_size = ''3ml'', req_quantity = 2\<rparr>,
                   \<lparr>req_product = 11, req_size = ''6ml'', req_quantity = 1\<rparr>],
      req_shippingAddress = home,
      req_payment_method = None,
      req_coupon_code = None\<rparr>"

definition short_request :: order_request where
  "short_request =
     cart_request\<lparr>req_items := [\<lparr>req_product = 11, req_size = ''6ml'', req_quantity = 1\<rparr>,
                               \<lparr>req_product = 11, req_size = ''3ml'', req_quantity = 6\<rparr>,
                               \<lparr>req_product = 99, req_size = ''3ml'', req_quantity = 1\<rparr>]\<rparr>"

definition bogus_coupon_request :: order_request where
  "bogus_coupon_request = cart_request\<lparr>req_coupon_code := Some ''BOGUS''\<rparr>"

definition attar20_request :: order_request where
  "attar20_request = cart_request\<lparr>req_coupon_code := Some ''ATTAR20''\<rparr>"


definition admin :: requester where
  "admin = \<lparr>user_id = 9, role = ''admin''\<rparr>"

section \<open>Reviews: helpful votes (routes/reviews.js)\<close>

text \<open>
  \<open>POST /api/reviews/:id/helpful\<close> on a review that was found. The voters are a
  Mongoose array of identifiers, compared by value: \<open>votedBy.includes\<close> is
  membership, \<open>votedBy.pull\<close> removes every occurrence of the user and
  \<open>votedBy.push\<close> appends it.
\<close>

definition pull :: "oid \<Rightarrow> oid list \<Rightarrow> oid list" where
  "pull u xs = filter (\<lambda>v. v \<noteq> u) xs"

definition toggleHelpful :: "oid \<Rightarrow> review \<Rightarrow> review" where
  "toggleHelpful u r =
     (let alreadyVoted = u \<in> set (votedBy r) in
      if alreadyVoted
      then r\<lparr>helpfulVotes := helpfulVotes r - 1, votedBy := pull u (votedBy r)\<rparr>
      else r\<lparr>helpfulVotes := helpfulVotes r + 1, votedBy := votedBy r @ [u]\<rparr>)"

text \<open>
  The handler: look the review up, toggle, save, answer with the counter and the flag.
  Saving a review runs the \<open>post('save')\<close> hook of models/Review.js, which recomputes
  the rating of the review's product.
\<close>

definition markHelpful :: "store \<Rightarrow> oid \<Rightarrow> oid \<Rightarrow> store \<times> (error + int \<times> bool)" where
  "markHelpful s u rid =
     (case findById (reviews s) rid of
        None \<Rightarrow> (s, Inl NotFound)
      | Some r \<Rightarrow>
          let r' = toggleHelpful u r in
          (updateProductRating (s\<lparr>reviews := (reviews s)[rid := r']\<rparr>) (review_product r'),
           Inr (helpfulVotes r', \<not> u \<in> set (votedBy r))))"

definition example_review :: review where
  "example_review =
     \<lparr>review_user = 1, review_product = 10, rating = 4, isApproved = True,
      helpfulVotes = 2, votedBy = [7, 8]\<rparr>"

section \<open>Helpful votes: properties\<close>

lemma set_pull: "set (pull u xs) = set xs - {u}"
  by (auto simp: pull_def)

lemma pull_absent: "u \<notin> set xs \<Longrightarrow> pull u xs = xs"
  by (induction xs) (auto simp: pull_def)

lemma pull_snoc: "pull u (xs @ [u]) = pull u xs"
  by (simp add: pull_def)

lemma card_set_pull: "u \<in> set xs \<Longrightarrow> int (card (set (pull u xs))) = int (card (set xs)) - 1"
proof -
  assume u: "u \<in> set xs"
  then have "card (set xs) > 0" by (auto simp: card_gt_0_iff)
  moreover have "card (set xs - {u}) = card (set xs) - 1" using u by simp
  ultimately show ?thesis by (simp add: set_pull)
qed

lemma toggleHelpful_voted:
  "u \<in> set (votedBy r) \<Longrightarrow>
     toggleHelpful u r = r\<lparr>helpfulVotes := helpfulVotes r - 1, votedBy := pull u (votedBy r)\<rparr>"
  by (simp add: toggleHelpful_def)

lemma toggleHelpful_not_voted:
  "u \<notin> set (votedBy r) \<Longrightarrow>
     toggleHelpful u r = r\<lparr>helpfulVotes := helpfulVotes r + 1, votedBy := votedBy r @ [u]\<rparr>"
  by (simp add: toggleHelpful_def)

lemma markHelpful_found:
  "findById (reviews s) rid = Some r \<Longrightarrow>
     markHelpful s u rid
       = (updateProductRating (s\<lparr>reviews := (reviews s)[rid := toggleHelpful u r]\<rparr>)
            (review_product r),
          Inr (helpfulVotes (toggleHelpful u r), u \<notin> set (votedBy r)))"
  by (simp add: markHelpful_def toggleHelpful_def Let_def)

text \<open>
  Claim C9. The helpful-vote toggle flips the user's membership in the voter set and
  keeps the counter equal to the size of the voter set: from a review whose counter is
  the number of distinct voters, one toggle gives such a review again, and two toggles
  by the same user give back the original voter set and the original counter.
\<close>

theorem toggleHelpful_counter_invariant:
  "(helpfulVotes r = int (card (set (votedBy r)))
      \<longrightarrow> helpfulVotes (toggleHelpful u r) = int (card (set (votedBy (toggleHelpful u r)))))
   \<and> set (votedBy (toggleHelpful u r)) =
       (if u \<in> set (votedBy r) then set (votedBy r) - {u} else insert u (set (votedBy r)))
   \<and> set (votedBy (toggleHelpful u (toggleHelpful u r))) = set (votedBy r)
   \<and> helpfulVotes (toggleHelpful u (toggleHelpful u r)) = helpfulVotes r"
proof (cases "u \<in> set (votedBy r)")
  case True
  let ?r1 = "r\<lparr>helpfulVotes := helpfulVotes r - 1, votedBy := pull u (votedBy r)\<rparr>"
  have t1: "toggleHelpful u r = ?r1"
    using True by (rule toggleHelpful_voted)
  have "u \<notin> set (votedBy ?r1)" by (simp add: set_pull)
  then have t2: "toggleHelpful u ?r1
      = ?r1\<lparr>helpfulVotes := helpfulVotes ?r1 + 1, votedBy := votedBy ?r1 @ [u]\<rparr>"
    by (rule toggleHelpful_not_voted)
  have c: "int (card (set (pull u (votedBy r)))) = int (card (set (votedBy r))) - 1"
    using True by (rule card_set_pull)
  show ?thesis
    using True c by (auto simp: t1 t2 set_pull)
next
  case False
  let ?r1 = "r\<lparr>helpfulVotes := helpfulVotes r + 1, votedBy := votedBy r @ [u]\<rparr>"
  have t1: "toggleHelpful u r = ?r1"
    using False by (rule toggleHelpful_not_voted)
  have "u \<in> set (votedBy ?r1)" by simp
  then have t2: "toggleHelpful u ?r1
      = ?r1\<lparr>helpfulVotes := helpfulVotes ?r1 - 1, votedBy := pull u (votedBy ?r1)\<rparr>"
    by (rule toggleHelpful_voted)
  show ?thesis
    using False by (auto simp: t1 t2 set_pull pull_snoc)
qed

theorem toggleHelpful_counter_invariant_witness:
  "helpfulVotes example_review = int (card (set (votedBy example_review)))
   \<and> helpfulVotes (toggleHelpful 7 example_review) = 1
   \<and> votedBy (toggleHelpful 7 example_review) = [8]
   \<and> helpfulVotes (toggleHelpful 7 example_review)
       = int (card (set (votedBy (toggleHelpful 7 example_review))))
   \<and> set (votedBy (toggleHelpful 7 (toggleHelpful 7 example_review))) = {7, 8}
   \<and> helpfulVotes (toggleHelpful 7 (toggleHelpful 7 example_review)) = 2"
proof -
  have h: "helpfulVotes example_review = int (card (set (votedBy example_review)))"
    by (simp add: example_review_def)
  have v: "votedBy (toggleHelpful 7 example_review) = [8]"
    by (simp add: example_review_def toggleHelpful_def pull_def)
  have c: "helpfulVotes (toggleHelpful 7 example_review) = 1"
    by (simp add: example_review_def toggleHelpful_def pull_def)
  from toggleHelpful_counter_invariant [of example_review 7] h v c
  show ?thesis by (auto simp: example_review_def)
qed

section \<open>Stock counters: properties\<close>

lemma find_inc_first:
  "List.find (\<lambda>sz. volume sz = w) (inc_first v d ss)
     = map_option (\<lambda>sz. if v = w then sz\<lparr>stock := stock sz + d\<rparr> else sz)
         (List.find (\<lambda>sz. volume sz = w) ss)"
  by (induction ss) (auto simp: option.map_ident)

lemma stock_of_updateOne:
  "stock_of (updateOne_inc_stock ps pid v d) q w
     = map_option (\<lambda>n. n + (if pid = q \<and> v = w then d else 0)) (stock_of ps q w)"
  by (auto simp: stock_of_def size_of_def updateOne_inc_stock_def find_inc_first
        option.map_comp comp_def split: option.splits)

lemma stock_of_fold:
  "stock_of (fold (\<lambda>item acc. updateOne_inc_stock acc (item_product item) (item_size item)
                       (f item)) its ps) q w
     = map_option (\<lambda>n. n + sum_list (map f
           (filter (\<lambda>item. item_product item = q \<and> item_size item = w) its)))
         (stock_of ps q w)"
proof (induction its arbitrary: ps)
  case Nil
  then show ?case by (simp add: option.map_ident)
next
  case (Cons a its)
  show ?case
    by (simp add: Cons.IH stock_of_updateOne option.map_comp comp_def add.assoc)
qed

lemma stock_of_restoreStock:
  "stock_of (restoreStock its ps) q w
     = map_option (\<lambda>n. n + ordered_quantity its q w) (stock_of ps q w)"
  unfolding restoreStock_def ordered_quantity_def by (rule stock_of_fold)

lemma stock_of_reduceStock:
  "stock_of (reduceStock its ps) q w
     = map_option (\<lambda>n. n - ordered_quantity its q w) (stock_of ps q w)"
proof -
  have "sum_list (map (\<lambda>item. - item_quantity item) xs) = - sum_list (map item_quantity xs)"
    for xs :: "order_item list"
    by (induction xs) auto
  then show ?thesis
    unfolding reduceStock_def ordered_quantity_def by (simp only: stock_of_fold) simp
qed

lemma findById_update:
  "findById xs i = Some x \<Longrightarrow> findById (xs[i := y]) i = Some y"
  by (auto simp: findById_def split: if_splits)

section \<open>Cancellation: properties\<close>

text \<open>
  Claim C2. When the owning user cancels an order that is pending or confirmed, the
  order becomes cancelled, one cancelled entry is appended to its status history, and
  the stock counter of every product size grows by exactly the quantities that the
  order's line items record for it.
\<close>

theorem cancelOrder_restores_stock:
  assumes "findById (orders s) orderId = Some ord"
    and "user ord = uid"
    and "order_status ord = Pending \<or> order_status ord = Confirmed"
  shows "\<exists>s' ord'. cancelOrder s uid orderId reason now = (s', Inr ord')
           \<and> findById (orders s') orderId = Some ord'
           \<and> order_status ord' = Cancelled
           \<and> statusHistory ord' = statusHistory ord @
                [\<lparr>h_status = Cancelled,
                  h_message = (if truthy reason then the reason else ''Cancelled by customer''),
                  h_timestamp = now\<rparr>]
           \<and> items ord' = items ord
           \<and> (\<forall>pid v. stock_of (products s') pid v
                  = map_option (\<lambda>n. n + ordered_quantity (items ord) pid v)
                      (stock_of (products s) pid v))"
proof -
  let ?ord' = "ord\<lparr>order_status := Cancelled,
                    statusHistory := statusHistory ord @
                      [\<lparr>h_status = Cancelled,
                        h_message = (if truthy reason then the reason
                                     else ''Cancelled by customer''),
                        h_timestamp = now\<rparr>]\<rparr>"
  let ?s' = "s\<lparr>orders := (orders s)[orderId := ?ord'],
               products := restoreStock (items ord) (products s)\<rparr>"
  have ok: "order_status ord \<in> set cancellableStatuses"
    using assms(3) by (auto simp: cancellableStatuses_def)
  have run: "cancelOrder s uid orderId reason now = (?s', Inr ?ord')"
    using assms(1,2) ok by (simp add: cancelOrder_def Let_def)
  have found: "findById (orders ?s') orderId = Some ?ord'"
    using assms(1) by (simp add: findById_update)
  have stocks: "\<forall>pid v. stock_of (products ?s') pid v
                  = map_option (\<lambda>n. n + ordered_quantity (items ord) pid v)
                      (stock_of (products s) pid v)"
    by (simp add: stock_of_restoreStock)
  from run found stocks show ?thesis by simp
qed

lemma shop_stock_3ml: "stock_of (products shop) 11 ''3ml'' = Some 5"
  by (simp add: shop_def rose_def stock_of_def size_of_def)

lemma pending_order_quantity: "ordered_quantity (items pending_order) 11 ''3ml'' = 2"
  by (simp add: pending_order_def shipped_order_def ordered_quantity_def)

theorem cancelOrder_restores_stock_witness:
  "findById (orders shop) 1 = Some pending_order
   \<and> user pending_order = 5
   \<and> order_status pending_order = Pending
   \<and> (\<exists>s' ord'. cancelOrder shop 5 1 None 7 = (s', Inr ord')
         \<and> order_status ord' = Cancelled
         \<and> stock_of (products s') 11 ''3ml'' = Some 7)"
proof -
  have a: "findById (orders shop) 1 = Some pending_order"
    by (simp add: findById_def shop_def)
  have b: "user pending_order = 5"
    by (simp add: pending_order_def shipped_order_def)
  have c: "order_status pending_order = Pending"
    by (simp add: pending_order_def)
  from cancelOrder_restores_stock [OF a b disjI1 [OF c], of None 7]
  obtain s' ord' where r: "cancelOrder shop 5 1 None 7 = (s', Inr ord')"
    and st: "order_status ord' = Cancelled"
    and stocks: "\<forall>pid v. stock_of (products s') pid v
                  = map_option (\<lambda>n. n + ordered_quantity (items pending_order) pid v)
                      (stock_of (products shop) pid v)"
    by blast
  from stocks have "stock_of (products s') 11 ''3ml''
      = map_option (\<lambda>n. n + ordered_quantity (items pending_order) 11 ''3ml'')
          (stock_of (products shop) 11 ''3ml'')"
    by blast
  then have "stock_of (products s') 11 ''3ml'' = Some 7"
    by (simp only: shop_stock_3ml pending_order_quantity) simp
  with a b c r st show ?thesis by blast
qed

lemma cancelOrder_refused:
  assumes "findById (orders s) orderId = Some ord"
    and "order_status ord \<noteq> Pending"
    and "order_status ord \<noteq> Confirmed"
  shows "cancelOrder s uid orderId reason now
           = (s, Inl (if user ord = uid then Conflict else Forbidden))"
  using assms by (simp add: cancelOrder_def cancellableStatuses_def)

text \<open>
  Claim C3. When the owner of an order asks to cancel it while it is in any status
  other than pending or confirmed, the cancellation fails with the invalid-transition
  error and the store is left as it was: the order keeps its status and its status
  history, and no stock counter of any product changes.
\<close>

theorem cancelOrder_other_status:
  assumes "findById (orders s) orderId = Some ord"
    and "user ord = uid"
    and "order_status ord \<noteq> Pending"
    and "order_status ord \<noteq> Confirmed"
  shows "cancelOrder s uid orderId reason now = (s, Inl Conflict)
         \<and> findById (orders (fst (cancelOrder s uid orderId reason now))) orderId = Some ord
         \<and> products (fst (cancelOrder s uid orderId reason now)) = products s"
  using assms cancelOrder_refused [OF assms(1,3,4), of uid reason now] by simp

theorem cancelOrder_other_status_witness:
  "findById (orders shop) 0 = Some shipped_order
   \<and> user shipped_order = 5
   \<and> order_status shipped_order \<noteq> Pending
   \<and> order_status shipped_order \<noteq> Confirmed
   \<and> cancelOrder shop 5 0 None 7 = (shop, Inl Conflict)"
proof -
  have a: "findById (orders shop) 0 = Some shipped_order"
    by (simp add: findById_def shop_def)
  have b: "user shipped_order = 5"
    by (simp add: shipped_order_def)
  have c: "order_status shipped_order \<noteq> Pending"
    by (simp add: shipped_order_def)
  have d: "order_status shipped_order \<noteq> Confirmed"
    by (simp add: shipped_order_def)
  from cancelOrder_other_status [OF a b c d, of None 7] a b c d
  show ?thesis by simp
qed

section \<open>Status transitions and stock\<close>

lemma products_updateOrderStatus:
  "products (fst (updateOrderStatus s u orderId statusStr message trk now)) = products s"
  by (simp add: updateOrderStatus_def Let_def split: option.splits)

lemma products_paymentSucceeded:
  "products (paymentSucceeded s intentId now) = products s"
  by (simp add: paymentSucceeded_def Let_def split: option.splits)

lemma products_confirmCod:
  "products (fst (confirmCod s orderId now)) = products s"
  by (simp add: confirmCod_def Let_def split: option.splits)

lemma products_cancelOrder:
  "findById (orders s) orderId = Some ord \<Longrightarrow> user ord = uid
     \<Longrightarrow> order_status ord \<in> set cancellableStatuses
     \<Longrightarrow> products (fst (cancelOrder s uid orderId reason now))
           = restoreStock (items ord) (products s)"
  by (simp add: cancelOrder_def Let_def)

text \<open>
  Claim C6. Of the operations that set an order's status, only the customer's
  cancellation writes to the catalogue. The administrative status update leaves every
  product as it was whatever the target status (cancelled and delivered included), and
  so do the two payment confirmations; a successful customer cancellation adds the
  order's quantities back to the stock counters.
\<close>

theorem only_cancellation_touches_stock:
  "products (fst (updateOrderStatus s u orderId statusStr message trk now)) = products s
   \<and> products (paymentSucceeded s intentId now) = products s
   \<and> products (fst (confirmCod s orderId now)) = products s
   \<and> (findById (orders s) orderId = Some ord \<and> user ord = uid
        \<and> order_status ord \<in> set cancellableStatuses
       \<longrightarrow> (\<forall>pid v. stock_of (products (fst (cancelOrder s uid orderId reason now))) pid v
                    = map_option (\<lambda>n. n + ordered_quantity (items ord) pid v)
                        (stock_of (products s) pid v)))"
  by (simp add: products_updateOrderStatus products_paymentSucceeded products_confirmCod
        products_cancelOrder stock_of_restoreStock)

lemma admin_cancels_pending:
  "updateOrderStatus shop admin 1 ''cancelled'' None None 7
     = (shop\<lparr>orders := (orders shop)[1 := pending_order\<lparr>order_status := Cancelled,
            statusHistory := statusHistory pending_order @
              [\<lparr>h_status = Cancelled, h_message = ''Status updated to cancelled'',
                h_timestamp = 7\<rparr>]\<rparr>]\<rparr>,
        Inr (pending_order\<lparr>order_status := Cancelled,
            statusHistory := statusHistory pending_order @
              [\<lparr>h_status = Cancelled, h_message = ''Status updated to cancelled'',
                h_timestamp = 7\<rparr>]\<rparr>))"
  by (simp add: updateOrderStatus_def adminOnly_def admin_def validStatuses_def findById_def
        shop_def Let_def)

theorem only_cancellation_touches_stock_witness:
  "map_sum id order_status (snd (updateOrderStatus shop admin 1 ''cancelled'' None None 7))
     = Inr Cancelled
   \<and> stock_of (products (fst (updateOrderStatus shop admin 1 ''cancelled'' None None 7)))
        11 ''3ml'' = Some 5
   \<and> findById (orders shop) 1 = Some pending_order \<and> user pending_order = 5
   \<and> order_status pending_order \<in> set cancellableStatuses
   \<and> stock_of (products (fst (cancelOrder shop 5 1 None 7))) 11 ''3ml'' = Some 7"
proof -
  have a: "findById (orders shop) 1 = Some pending_order"
    by (simp add: findById_def shop_def)
  have b: "user pending_order = 5"
    by (simp add: pending_order_def shipped_order_def)
  have c: "order_status pending_order \<in> set cancellableStatuses"
    by (simp add: pending_order_def cancellableStatuses_def)
  have d: "map_sum id order_status
             (snd (updateOrderStatus shop admin 1 ''cancelled'' None None 7)) = Inr Cancelled"
    by (simp only: admin_cancels_pending snd_conv) simp
  note t = only_cancellation_touches_stock
     [of shop admin 1 "''cancelled''" None None 7 "''pi_1''" pending_order 5 None]
  from t have e: "products (fst (updateOrderStatus shop admin 1 ''cancelled'' None None 7))
      = products shop" by blast
  from t a b c have "stock_of (products (fst (cancelOrder shop 5 1 None 7))) 11 ''3ml''
      = map_option (\<lambda>n. n + ordered_quantity (items pending_order) 11 ''3ml'')
          (stock_of (products shop) 11 ''3ml'')"
    by blast
  then have f: "stock_of (products (fst (cancelOrder shop 5 1 None 7))) 11 ''3ml'' = Some 7"
    by (simp only: shop_stock_3ml pending_order_quantity) simp
  from a b c d e f show ?thesis
    by (simp only: shop_stock_3ml simp_thms)
qed

section \<open>The paid timestamp\<close>

text \<open>
  Claim C7, as amended. An administrative transition to delivered sets the payment's
  paid timestamp to the time of the transition, whether or not one was recorded before;
  a transition to any other status leaves the paid timestamp as it was.
\<close>

theorem updateOrderStatus_paidAt:
  assumes "adminOnly u"
    and "map_of validStatuses statusStr = Some st"
    and "findById (orders s) orderId = Some ord"
  shows "\<exists>ord'. updateOrderStatus s u orderId statusStr message trk now
                  = (s\<lparr>orders := (orders s)[orderId := ord']\<rparr>, Inr ord')
           \<and> order_status ord' = st
           \<and> paidAt (order_payment ord')
               = (if st = Delivered then Some now else paidAt (order_payment ord))"
  using assms
  by (cases trk) (simp_all add: updateOrderStatus_def Let_def)

theorem updateOrderStatus_paidAt_witness:
  "adminOnly admin \<and> map_of validStatuses ''delivered'' = Some Delivered
   \<and> findById (orders shop) 1 = Some pending_order
   \<and> paidAt (order_payment pending_order) = None
   \<and> (\<exists>ord'. snd (updateOrderStatus shop admin 1 ''delivered'' None None 9) = Inr ord'
          \<and> order_status ord' = Delivered \<and> paidAt (order_payment ord') = Some 9)"
proof -
  have a: "adminOnly admin" by (simp add: adminOnly_def admin_def)
  have b: "map_of validStatuses ''delivered'' = Some Delivered"
    by (simp add: validStatuses_def)
  have c: "findById (orders shop) 1 = Some pending_order"
    by (simp add: findById_def shop_def)
  have d: "paidAt (order_payment pending_order) = None"
    by (simp add: pending_order_def)
  from updateOrderStatus_paidAt [OF a b c, of None None 9]
  obtain ord' where "updateOrderStatus shop admin 1 ''delivered'' None None 9
                  = (shop\<lparr>orders := (orders shop)[1 := ord']\<rparr>, Inr ord')"
    and "order_status ord' = Delivered" and "paidAt (order_payment ord') = Some 9"
    by auto
  with a b c d show ?thesis by simp
qed

text \<open>
  The claim as first stated expects a paid timestamp that is already set to survive.
  The shipped order was paid at time 3; delivering it at time 9 replaces the timestamp.
\<close>

theorem delivered_overwrites_paidAt_counterexample:
  "findById (orders shop) 0 = Some shipped_order
   \<and> paidAt (order_payment shipped_order) = Some 3
   \<and> map_sum id order_status (snd (updateOrderStatus shop admin 0 ''delivered'' None None 9))
       = Inr Delivered
   \<and> map_sum id (paidAt \<circ> order_payment)
         (snd (updateOrderStatus shop admin 0 ''delivered'' None None 9)) = Inr (Some 9)"
  by (simp add: updateOrderStatus_def adminOnly_def admin_def validStatuses_def findById_def
        shop_def shipped_order_def Let_def)

section \<open>Order placement: properties\<close>

lemma floor_numeral_div:
  "\<lfloor>(numeral a :: rat) / numeral b\<rfloor> = numeral a div numeral b"
  using floor_divide_of_int_eq [of "numeral a" "numeral b", where ?'a = rat] by simp

lemma verify_items_short:
  "list_ex (\<lambda>item. exceeds_stock ps (req_product item) (req_size item) (req_quantity item)) its
     \<Longrightarrow> \<exists>e. verify_items ps its sub acc = Inl e"
proof (induction its arbitrary: sub acc)
  case Nil
  then show ?case by simp
next
  case (Cons item rest)
  show ?case
  proof (cases "exceeds_stock ps (req_product item) (req_size item) (req_quantity item)")
    case True
    then show ?thesis
      by (auto simp: exceeds_stock_def stock_of_def size_of_def split: option.splits)
  next
    case False
    with Cons.prems have "list_ex (\<lambda>item. exceeds_stock ps (req_product item) (req_size item)
        (req_quantity item)) rest" by simp
    from Cons.IH [OF this] show ?thesis
      by (auto split: option.splits)
  qed
qed

lemma verify_items_first_short:
  "list_all (\<lambda>item. resolves ps (req_product item) (req_size item)) pre
     \<Longrightarrow> resolves ps (req_product item) (req_size item)
     \<Longrightarrow> exceeds_stock ps (req_product item) (req_size item) (req_quantity item)
     \<Longrightarrow> verify_items ps (pre @ item # post) sub acc = Inl InsufficientStock"
proof (induction pre arbitrary: sub acc)
  case Nil
  then show ?case
    by (auto simp: resolves_def exceeds_stock_def stock_of_def size_of_def
          split: option.splits)
next
  case (Cons line pre)
  from Cons.prems(1) obtain p sz where p: "ps (req_product line) = Some p" "isActive p"
    and sz: "List.find (\<lambda>sz. volume sz = req_size line) (sizes p) = Some sz"
    by (auto simp: resolves_def size_of_def split: option.splits)
  from Cons.prems(1)
  have rest: "list_all (\<lambda>item. resolves ps (req_product item) (req_size item)) pre"
    by simp
  show ?case
  proof (cases "stock sz < req_quantity line")
    case True
    with p sz show ?thesis by simp
  next
    case False
    with p sz Cons.IH [OF rest Cons.prems(2,3)] show ?thesis by simp
  qed
qed

text \<open>
  Claim C1. A request in which some line asks for more units than its size entry holds
  fails, and the store it leaves is the store it found: no order is added and no stock
  counter is touched, whatever lines were processed before the short one. For a request
  that passes the field validation and whose lines, up to and including a short one,
  each name an active product and one of its sizes, the failure is the
  insufficient-stock one; the lines after the short one play no part.
\<close>

theorem placeOrder_insufficient_stock:
  "(list_ex (\<lambda>item. exceeds_stock (products s) (req_product item) (req_size item)
                      (req_quantity item)) (req_items req)
      \<longrightarrow> (\<exists>e. placeOrder s uid now req = (s, Inl e)))
   \<and> (request_validation_ok req
        \<and> req_items req = pre @ item # post
        \<and> list_all (\<lambda>item. resolves (products s) (req_product item) (req_size item)) pre
        \<and> resolves (products s) (req_product item) (req_size item)
        \<and> exceeds_stock (products s) (req_product item) (req_size item) (req_quantity item)
      \<longrightarrow> placeOrder s uid now req = (s, Inl InsufficientStock))"
proof -
  have "\<exists>e. placeOrder s uid now req = (s, Inl e)"
    if "list_ex (\<lambda>item. exceeds_stock (products s) (req_product item) (req_size item)
                      (req_quantity item)) (req_items req)"
  proof -
    from verify_items_short [OF that] obtain e
      where "verify_items (products s) (req_items req) 0 [] = Inl e" by blast
    then show ?thesis by (simp add: placeOrder_def)
  qed
  moreover have "placeOrder s uid now req = (s, Inl InsufficientStock)"
    if "request_validation_ok req"
      and "req_items req = pre @ item # post"
      and "list_all (\<lambda>item. resolves (products s) (req_product item) (req_size item)) pre"
      and "resolves (products s) (req_product item) (req_size item)"
      and "exceeds_stock (products s) (req_product item) (req_size item) (req_quantity item)"
    using that(1,2) verify_items_first_short [OF that(3,4,5), of post 0 "[]"]
    by (simp add: placeOrder_def)
  ultimately show ?thesis by blast
qed

lemma shop_stock_6ml: "stock_of (products shop) 11 ''6ml'' = Some 20"
  by (simp add: shop_def rose_def stock_of_def size_of_def)

theorem placeOrder_insufficient_stock_witness:
  "request_validation_ok short_request
   \<and> req_items short_request
        = [\<lparr>req_product = 11, req_size = ''6ml'', req_quantity = 1\<rparr>]
          @ \<lparr>req_product = 11, req_size = ''3ml'', req_quantity = 6\<rparr>
          # [\<lparr>req_product = 99, req_size = ''3ml'', req_quantity = 1\<rparr>]
   \<and> resolves (products shop) 11 ''6ml''
   \<and> resolves (products shop) 11 ''3ml''
   \<and> exceeds_stock (products shop) 11 ''3ml'' 6
   \<and> placeOrder shop 5 7 short_request = (shop, Inl InsufficientStock)"
proof -
  have a: "request_validation_ok short_request"
    by (simp add: request_validation_ok_def short_request_def cart_request_def home_def)
  have b: "req_items short_request
        = [\<lparr>req_product = 11, req_size = ''6ml'', req_quantity = 1\<rparr>]
          @ \<lparr>req_product = 11, req_size = ''3ml'', req_quantity = 6\<rparr>
          # [\<lparr>req_product = 99, req_size = ''3ml'', req_quantity = 1\<rparr>]"
    by (simp add: short_request_def)
  have c: "resolves (products shop) 11 ''6ml''"
    by (simp add: resolves_def size_of_def shop_def rose_def)
  have d: "resolves (products shop) 11 ''3ml''"
    by (simp add: resolves_def size_of_def shop_def rose_def)
  have e: "exceeds_stock (products shop) 11 ''3ml'' 6"
    by (simp add: exceeds_stock_def shop_stock_3ml)
  from placeOrder_insufficient_stock
         [where s = shop and req = short_request and uid = 5 and now = 7
            and pre = "[\<lparr>req_product = 11, req_size = ''6ml'', req_quantity = 1\<rparr>]"
            and item = "\<lparr>req_product = 11, req_size = ''3ml'', req_quantity = 6\<rparr>"
            and post = "[\<lparr>req_product = 99, req_size = ''3ml'', req_quantity = 1\<rparr>]"]
       a b c d e
  show ?thesis by simp
qed

section \<open>Rounding: properties\<close>

lemma Math_round_bounds: "of_int (Math_round y) \<le> y + 1 / 2" "y - 1 / 2 < of_int (Math_round y)"
proof -
  show "of_int (Math_round y) \<le> y + 1 / 2"
    unfolding Math_round_def by (rule of_int_floor_le)
  have "y + 1 / 2 < of_int \<lfloor>y + 1 / 2\<rfloor> + 1"
    by linarith
  then show "y - 1 / 2 < of_int (Math_round y)"
    unfolding Math_round_def by simp
qed

lemma rounded_to_Math_round:
  "rounded_to d x (of_int (Math_round (x * 10 ^ d)) / 10 ^ d)"
proof -
  let ?n = "Math_round (x * 10 ^ d)"
  let ?r = "(of_int ?n :: rat) / 10 ^ d"
  have p: "(0::rat) < 10 ^ d" by simp
  have whole: "?r * 10 ^ d = of_int ?n" by simp
  have "\<bar>?r - x\<bar> * 10 ^ d = \<bar>(?r - x) * 10 ^ d\<bar>"
    using p by (simp add: abs_mult)
  also have "(?r - x) * 10 ^ d = of_int ?n - x * 10 ^ d"
    by (simp add: algebra_simps)
  finally have "\<bar>?r - x\<bar> * 10 ^ d = \<bar>of_int ?n - x * 10 ^ d\<bar>" .
  moreover have "\<bar>of_int ?n - x * 10 ^ d\<bar> \<le> 1 / 2"
    using Math_round_bounds [of "x * 10 ^ d"] by linarith
  ultimately have "\<bar>?r - x\<bar> * 10 ^ d \<le> 1 / 2" by simp
  then have "\<bar>?r - x\<bar> * (2 * 10 ^ d) \<le> 1" by simp
  with whole show ?thesis
    unfolding rounded_to_def by (simp only: whole floor_of_int simp_thms)
qed

lemma rounded_to_1: "rounded_to 1 x (of_int (Math_round (x * 10)) / 10)"
  using rounded_to_Math_round [of 1 x] by simp

section \<open>Coupons at order placement\<close>

lemma totals_80_coupon: "truthy c \<Longrightarrow> calculate_totals 80 c
   = \<lparr>subtotal = 80, shipping = 999 / 100, tax = 4, discount = 8, total = 8599 / 100\<rparr>"
  by (simp add: calculate_totals_def Math_round_def floor_numeral_div)

lemma verify_cart_request:
  "verify_items (products shop) (req_items cart_request) 0 []
     = Inr ([\<lparr>item_product = 11, item_name = ''Royal Hindi Oud'', item_image = ''oud.jpg'',
               item_size = ''3ml'', item_price = 30, item_quantity = 2\<rparr>,
             \<lparr>item_product = 11, item_name = ''Royal Hindi Oud'', item_image = ''oud.jpg'',
               item_size = ''6ml'', item_price = 20, item_quantity = 1\<rparr>], 80)"
  by (simp add: shop_def cart_request_def rose_def)

lemma place_coupon_request:
  "truthy c \<Longrightarrow>
   \<exists>s' ord. placeOrder shop 5 7 (cart_request\<lparr>req_coupon_code := c\<rparr>) = (s', Inr ord)
      \<and> order_pricing ord
          = \<lparr>subtotal = 80, shipping = 999 / 100, tax = 4, discount = 8, total = 8599 / 100\<rparr>
      \<and> coupon ord = Some (the c, 8)"
  using verify_cart_request
  apply (simp add: placeOrder_def request_validation_ok_def)
  apply (simp add: cart_request_def home_def new_order_def order_schema_ok_def totals_80_coupon
           Let_def)
  done

lemma discount_is_ten_percent:
  "truthy code \<Longrightarrow>
     discount (calculate_totals sub code) = of_int (Math_round (sub * (10 / 100) * 100)) / 100"
  by (simp add: calculate_totals_def Let_def)

text \<open>
  Claim C5 asks that order placement resolve the discount from the coupon table and
  reject a code that is not in it. The handler never consults the table: any non-empty
  code is accepted and yields a discount of 10 percent. The code \<open>BOGUS\<close>, which the
  coupon check refuses, places an order with 8.00 off a subtotal of 80; the code
  \<open>ATTAR20\<close>, listed at 20 percent, yields the same 8.00.
\<close>

theorem placeOrder_coupon_not_checked:
  "checkCoupon (Some ''BOGUS'') = Inl Conflict
   \<and> (\<exists>s' ord. placeOrder shop 5 7 bogus_coupon_request = (s', Inr ord)
         \<and> orders s' = orders shop @ [ord]
         \<and> coupon ord = Some (''BOGUS'', 8)
         \<and> order_pricing ord
             = \<lparr>subtotal = 80, shipping = 999 / 100, tax = 4, discount = 8,
                total = 8599 / 100\<rparr>)
   \<and> checkCoupon (Some ''ATTAR20'') = Inr (''ATTAR20'', 20, Percentage)
   \<and> (\<exists>s' ord. placeOrder shop 5 7 attar20_request = (s', Inr ord)
         \<and> discount (order_pricing ord) = 8 \<and> subtotal (order_pricing ord) = 80)"
proof -
  have a: "checkCoupon (Some ''BOGUS'') = Inl Conflict" by code_simp
  have b: "checkCoupon (Some ''ATTAR20'') = Inr (''ATTAR20'', 20, Percentage)" by code_simp
  from place_coupon_request [of "Some ''BOGUS''"]
  obtain s1 ord1 where c: "placeOrder shop 5 7 bogus_coupon_request = (s1, Inr ord1)"
    "order_pricing ord1
       = \<lparr>subtotal = 80, shipping = 999 / 100, tax = 4, discount = 8, total = 8599 / 100\<rparr>"
    "coupon ord1 = Some (''BOGUS'', 8)"
    by (auto simp: bogus_coupon_request_def)
  from c(1) have d: "orders s1 = orders shop @ [ord1]"
    by (auto simp: placeOrder_def Let_def split: if_splits sum.splits)
  from place_coupon_request [of "Some ''ATTAR20''"]
  obtain s2 ord2 where e: "placeOrder shop 5 7 attar20_request = (s2, Inr ord2)"
    "order_pricing ord2
       = \<lparr>subtotal = 80, shipping = 999 / 100, tax = 4, discount = 8, total = 8599 / 100\<rparr>"
    by (auto simp: attar20_request_def)
  from a b c d e show ?thesis by auto
qed

section \<open>Cart validation: properties\<close>








section \<open>Review aggregation: properties\<close>

lemma aggregate_stats_eq:
  "aggregate_stats (reviews s) pid
     = (if approved_ratings s pid = [] then []
        else [(mean (approved_ratings s pid), length (approved_ratings s pid))])"
  by (simp add: aggregate_stats_def approved_ratings_def mean_def Let_def)

lemma reviews_updateProductRating: "reviews (updateProductRating s pid) = reviews s"
  by (simp add: updateProductRating_def Let_def split: option.splits)

lemma approved_ratings_updateProductRating:
  "approved_ratings (updateProductRating s pid) q = approved_ratings s q"
  by (simp add: approved_ratings_def reviews_updateProductRating)

lemma updateProductRating_eq:
  "updateProductRating s pid =
     (case products s pid of
        None \<Rightarrow> s
      | Some p \<Rightarrow>
          s\<lparr>products := (products s)(pid \<mapsto>
               p\<lparr>ratings_average :=
                     (if approved_ratings s pid = [] then 0
                      else of_int (Math_round (mean (approved_ratings s pid) * 10)) / 10),
                   ratings_count := length (approved_ratings s pid)\<rparr>)\<rparr>)"
  by (simp add: updateProductRating_def aggregate_stats_eq Let_def split: option.splits)

lemma updateProductRating_twice:
  "updateProductRating (updateProductRating s pid) pid = updateProductRating s pid"
proof (cases "products s pid")
  case None
  then show ?thesis by (simp add: updateProductRating_eq)
next
  case (Some p)
  let ?s1 = "updateProductRating s pid"
  have r: "approved_ratings ?s1 pid = approved_ratings s pid"
    by (rule approved_ratings_updateProductRating)
  have s1: "?s1 = s\<lparr>products := (products s)(pid \<mapsto>
               p\<lparr>ratings_average :=
                     (if approved_ratings s pid = [] then 0
                      else of_int (Math_round (mean (approved_ratings s pid) * 10)) / 10),
                   ratings_count := length (approved_ratings s pid)\<rparr>)\<rparr>"
    using Some by (simp add: updateProductRating_eq)
  show ?thesis
    apply (subst updateProductRating_eq [of ?s1])
    apply (simp only: r)
    apply (simp add: s1)
    done
qed

text \<open>
  Claim C8. Recomputing the rating of an existing product writes the number of its
  approved reviews as the count and the mean of their ratings, rounded to 1 decimal,
  as the average (0 when there is no approved review), and changes nothing else: the
  product's other fields, the other products, the reviews and the orders stay as they
  were. Running it a second time on the result gives the same store as running it once.
\<close>

theorem updateProductRating_recomputes:
  "(products s pid = Some p \<longrightarrow>
      (\<exists>p'. products (updateProductRating s pid) pid = Some p'
         \<and> ratings_count p' = length (approved_ratings s pid)
         \<and> (approved_ratings s pid \<noteq> []
              \<longrightarrow> rounded_to 1 (mean (approved_ratings s pid)) (ratings_average p'))
         \<and> (approved_ratings s pid = [] \<longrightarrow> ratings_average p' = 0)
         \<and> p' = p\<lparr>ratings_average := ratings_average p', ratings_count := ratings_count p'\<rparr>))
   \<and> (products s pid = None \<longrightarrow> updateProductRating s pid = s)
   \<and> (\<forall>q. q \<noteq> pid \<longrightarrow> products (updateProductRating s pid) q = products s q)
   \<and> reviews (updateProductRating s pid) = reviews s
   \<and> orders (updateProductRating s pid) = orders s
   \<and> updateProductRating (updateProductRating s pid) pid = updateProductRating s pid"
proof -
  have a: "\<exists>p'. products (updateProductRating s pid) pid = Some p'
         \<and> ratings_count p' = length (approved_ratings s pid)
         \<and> (approved_ratings s pid \<noteq> []
              \<longrightarrow> rounded_to 1 (mean (approved_ratings s pid)) (ratings_average p'))
         \<and> (approved_ratings s pid = [] \<longrightarrow> ratings_average p' = 0)
         \<and> p' = p\<lparr>ratings_average := ratings_average p', ratings_count := ratings_count p'\<rparr>"
    if "products s pid = Some p"
    using that rounded_to_1 [of "mean (approved_ratings s pid)"]
    by (simp add: updateProductRating_eq)
  have b: "updateProductRating s pid = s" if "products s pid = None"
    using that by (simp add: updateProductRating_eq)
  have c: "\<forall>q. q \<noteq> pid \<longrightarrow> products (updateProductRating s pid) q = products s q"
    by (simp add: updateProductRating_eq split: option.splits)
  have d: "orders (updateProductRating s pid) = orders s"
    by (simp add: updateProductRating_eq split: option.splits)
  from a b c d reviews_updateProductRating updateProductRating_twice show ?thesis
    by blast
qed

lemma shop_ratings: "approved_ratings shop 11 = [4, 5, 5]"
  by (simp add: approved_ratings_def shop_def)

lemma shop_rose: "products shop 11 = Some rose"
  by (simp add: shop_def)

lemma shop_rating_written:
  "map_option (\<lambda>p. (ratings_average p, ratings_count p))
     (products (updateProductRating shop 11) 11) = Some (47 / 10, 3)"
  by (simp add: updateProductRating_eq shop_rose shop_ratings mean_def Math_round_def
        floor_numeral_div)

theorem updateProductRating_recomputes_witness:
  "products shop 11 = Some rose
   \<and> approved_ratings shop 11 = [4, 5, 5]
   \<and> mean [4, 5, 5] = 14 / 3
   \<and> (\<exists>p'. products (updateProductRating shop 11) 11 = Some p'
         \<and> ratings_count p' = 3 \<and> ratings_average p' = 47 / 10
         \<and> rounded_to 1 (14 / 3) (ratings_average p'))
   \<and> products (updateProductRating shop 11) 12 = Some musk
   \<and> updateProductRating (updateProductRating shop 11) 11 = updateProductRating shop 11"
proof -
  have m: "mean [4, 5, 5] = 14 / 3" by (simp add: mean_def)
  note t = updateProductRating_recomputes [of shop 11 rose]
  from t shop_rose obtain p' where p': "products (updateProductRating shop 11) 11 = Some p'"
    "ratings_count p' = length (approved_ratings shop 11)"
    "approved_ratings shop 11 \<noteq> []
       \<longrightarrow> rounded_to 1 (mean (approved_ratings shop 11)) (ratings_average p')"
    by blast
  from p'(1) shop_rating_written have avg: "ratings_average p' = 47 / 10" by simp
  from p'(3) have r: "rounded_to 1 (14 / 3) (ratings_average p')"
    by (simp add: shop_ratings m)
  from t have "products (updateProductRating shop 11) 12 = products shop 12" by simp
  then have o: "products (updateProductRating shop 11) 12 = Some musk"
    by (simp add: shop_def)
  from t have i: "updateProductRating (updateProductRating shop 11) 11
      = updateProductRating shop 11" by blast
  from p' avg r o i m shop_rose shop_ratings show ?thesis by simp
qed

section \<open>Placement followed by cancellation\<close>

text \<open>
  What cancellation adds back is what placement took: after an order has been placed
  and then cancelled by its owner, every stock counter reads what it read before the
  order was placed.
\<close>

lemma placeOrder_success:
  assumes "placeOrder s uid now req = (s1, Inr ord)"
  shows "orders s1 = orders s @ [ord]"
    and "products s1 = reduceStock (items ord) (products s)"
    and "user ord = uid"
    and "order_status ord = Pending"
proof -
  from assms obtain ois sub
    where ord: "ord = new_order uid now req ois sub"
      and s1: "s1 = s\<lparr>orders := orders s @ [ord], products := reduceStock ois (products s)\<rparr>"
    by (auto simp: placeOrder_def Let_def split: if_splits sum.splits)
  have its: "items ord = ois" by (simp add: ord new_order_def Let_def)
  show "orders s1 = orders s @ [ord]" by (simp add: s1)
  show "products s1 = reduceStock (items ord) (products s)" by (simp add: s1 its)
  show "user ord = uid" by (simp add: ord new_order_def Let_def)
  show "order_status ord = Pending" by (simp add: ord new_order_def Let_def)
qed

lemma place_then_cancel_restores_stock:
  assumes "placeOrder s uid now req = (s1, Inr ord)"
  shows "stock_of (products (fst (cancelOrder s1 uid (length (orders s)) reason later))) pid v
           = stock_of (products s) pid v"
proof -
  note p = placeOrder_success [OF assms]
  have found: "findById (orders s1) (length (orders s)) = Some ord"
    by (simp add: findById_def p(1))
  have ok: "order_status ord \<in> set cancellableStatuses"
    by (simp add: p(4) cancellableStatuses_def)
  have "products (fst (cancelOrder s1 uid (length (orders s)) reason later))
          = restoreStock (items ord) (reduceStock (items ord) (products s))"
    using products_cancelOrder [OF found p(3) ok] by (simp add: p(2))
  then show ?thesis
    by (simp add: stock_of_restoreStock stock_of_reduceStock option.map_comp comp_def
          option.map_ident)
qed

end
